theory Spec2Isabelle
  imports Main
begin

section \<open>JavaScript values\<close>

text \<open>
  The values that flow through \<^verbatim>\<open>src/context/AuthContext.tsx\<close>: server responses
  (typed \<^verbatim>\<open>any\<close>), the result of \<^verbatim>\<open>JSON.parse\<close>, the React state \<^verbatim>\<open>user\<close>
  and the id handed to \<^verbatim>\<open>api.setUserId\<close>. The TypeScript interface \<^verbatim>\<open>User\<close> is
  not enforced at run time, so the model keeps whatever value arrives.  A number is held
  as its decimal text (no arithmetic happens in this code): the text \<^verbatim>\<open>Number::toString\<close>
  gives for a number that arrives from the network, the text as written for a number that
  \<^verbatim>\<open>JSON.parse\<close> reads.  Strings are lists of code units below 256.
\<close>

datatype jsval = JUndefined | JNull | JBool bool | JNum string | JStr string
  | JArr "jsval list" | JObj "(string \<times> jsval) list"

text \<open>ToBoolean, as used by \<^verbatim>\<open>if (x)\<close>, \<^verbatim>\<open>!x\<close> and \<^verbatim>\<open>x || y\<close>.\<close>

fun truthy :: "jsval \<Rightarrow> bool" where
  "truthy JUndefined = False"
| "truthy JNull = False"
| "truthy (JBool b) = b"
| "truthy (JNum n) = (n \<noteq> ''0'' \<and> n \<noteq> ''-0'' \<and> n \<noteq> ''NaN'')"
| "truthy (JStr s) = (s \<noteq> [])"
| "truthy (JArr vs) = True"
| "truthy (JObj kvs) = True"

definition nullish :: "jsval \<Rightarrow> bool" where
  "nullish v = (v = JUndefined \<or> v = JNull)"

text \<open>
  \<^verbatim>\<open>v.k\<close> on a value that is neither null nor undefined, for the keys this code reads
  (\<^verbatim>\<open>data\<close>, \<^verbatim>\<open>user\<close>, \<^verbatim>\<open>userId\<close>, \<^verbatim>\<open>id\<close>, \<^verbatim>\<open>name\<close>, \<^verbatim>\<open>email\<close>, \<^verbatim>\<open>idToken\<close>,
  \<^verbatim>\<open>status\<close>): an own property of an object, undefined on every other value (no
  prototype of a primitive or an array has one of these keys).
\<close>

fun dot :: "jsval \<Rightarrow> string \<Rightarrow> jsval" where
  "dot (JObj kvs) k = (case map_of kvs k of None \<Rightarrow> JUndefined | Some v \<Rightarrow> v)"
| "dot _ k = JUndefined"

text \<open>Optional chaining \<^verbatim>\<open>v?.k\<close>.\<close>

definition opt_dot :: "jsval \<Rightarrow> string \<Rightarrow> jsval" where
  "opt_dot v k = (if nullish v then JUndefined else dot v k)"

section \<open>The JSON built-in\<close>

subsection \<open>\<^verbatim>\<open>JSON.stringify\<close>\<close>

definition hexdigit :: "nat \<Rightarrow> char" where
  "hexdigit n = (if n < 10 then char_of (48 + n) else char_of (87 + n))"

text \<open>QuoteJSONString of ECMA-262, one code unit at a time.\<close>

definition QuoteJSONString_unit :: "char \<Rightarrow> string" where
  "QuoteJSONString_unit c =
     (if c = CHR 0x08 then [CHR 0x5C, CHR ''b'']
      else if c = CHR 0x09 then [CHR 0x5C, CHR ''t'']
      else if c = CHR 0x0A then [CHR 0x5C, CHR ''n'']
      else if c = CHR 0x0C then [CHR 0x5C, CHR ''f'']
      else if c = CHR 0x0D then [CHR 0x5C, CHR ''r'']
      else if c = CHR 0x22 then [CHR 0x5C, CHR 0x22]
      else if c = CHR 0x5C then [CHR 0x5C, CHR 0x5C]
      else if (of_char c :: nat) < 32
        then [CHR 0x5C, CHR ''u'', CHR ''0'', CHR ''0'',
              hexdigit (of_char c div 16), hexdigit (of_char c mod 16)]
      else [c])"

definition QuoteJSONString :: "string \<Rightarrow> string" where
  "QuoteJSONString s = CHR 0x22 # concat (map QuoteJSONString_unit s) @ [CHR 0x22]"

fun intercalate :: "string \<Rightarrow> string list \<Rightarrow> string" where
  "intercalate sep [] = []"
| "intercalate sep [x] = x"
| "intercalate sep (x # y # ys) = x @ sep @ intercalate sep (y # ys)"

text \<open>
  SerializeJSONProperty without replacer or indentation: a property whose value is
  undefined is left out of an object and written \<^verbatim>\<open>null\<close> in an array.
\<close>

fun SerializeJSONProperty :: "jsval \<Rightarrow> string" where
  "SerializeJSONProperty JUndefined = ''null''"
| "SerializeJSONProperty JNull = ''null''"
| "SerializeJSONProperty (JBool b) = (if b then ''true'' else ''false'')"
| "SerializeJSONProperty (JNum n) =
     (if n = ''NaN'' \<or> n = ''Infinity'' \<or> n = ''-Infinity'' then ''null'' else n)"
| "SerializeJSONProperty (JStr s) = QuoteJSONString s"
| "SerializeJSONProperty (JArr vs) =
     ''['' @ intercalate '','' (map SerializeJSONProperty vs) @ '']''"
| "SerializeJSONProperty (JObj kvs) =
     ''{'' @ intercalate '',''
        (map (\<lambda>kv. QuoteJSONString (fst kv) @ '':'' @ SerializeJSONProperty (snd kv))
             (filter (\<lambda>kv. snd kv \<noteq> JUndefined) kvs)) @ ''}''"

definition JSON_stringify :: "jsval \<Rightarrow> string" where
  "JSON_stringify v = SerializeJSONProperty v"

subsection \<open>\<^verbatim>\<open>JSON.parse\<close>\<close>

datatype token = LBrace | RBrace | LBracket | RBracket | Colon | Comma
  | TString string | TNumber string | TTrue | TFalse | TNull





















text \<open>
  An object keeps one entry for each key: a repeated key overwrites the value at the
  position of its first occurrence.
\<close>

definition obj_put :: "(string \<times> jsval) list \<Rightarrow> string \<Rightarrow> jsval \<Rightarrow> (string \<times> jsval) list" where
  "obj_put kvs k v =
     (if k \<in> fst ` set kvs then map (\<lambda>kv. if fst kv = k then (k, v) else kv) kvs
      else kvs @ [(k, v)])"

function (sequential) parse_value :: "token list \<Rightarrow> (jsval \<times> token list) option"
  and parse_elements :: "token list \<Rightarrow> jsval list \<Rightarrow> (jsval \<times> token list) option"
  and parse_members :: "token list \<Rightarrow> (string \<times> jsval) list \<Rightarrow> (jsval \<times> token list) option"
where
  "parse_value [] = None"
| "parse_value (TNull # ts) = Some (JNull, ts)"
| "parse_value (TTrue # ts) = Some (JBool True, ts)"
| "parse_value (TFalse # ts) = Some (JBool False, ts)"
| "parse_value (TNumber n # ts) = Some (JNum n, ts)"
| "parse_value (TString s # ts) = Some (JStr s, ts)"
| "parse_value (LBracket # RBracket # ts) = Some (JArr [], ts)"
| "parse_value (LBracket # ts) = parse_elements ts []"
| "parse_value (LBrace # RBrace # ts) = Some (JObj [], ts)"
| "parse_value (LBrace # ts) = parse_members ts []"
| "parse_value (t # ts) = None"
| "parse_elements ts acc =
     (case parse_value ts of
        None \<Rightarrow> None
      | Some (v, r) \<Rightarrow>
          (case r of
             Comma # r' \<Rightarrow>
               if length r' < length ts then parse_elements r' (acc @ [v]) else None
           | RBracket # r' \<Rightarrow> Some (JArr (acc @ [v]), r')
           | _ \<Rightarrow> None))"
| "parse_members (TString k # Colon # ts) acc =
     (case parse_value ts of
        None \<Rightarrow> None
      | Some (v, r) \<Rightarrow>
          (case r of
             Comma # r' \<Rightarrow>
               if length r' < length ts then parse_members r' (obj_put acc k v) else None
           | RBrace # r' \<Rightarrow> Some (JObj (obj_put acc k v), r')
           | _ \<Rightarrow> None))"
| "parse_members ts acc = None"
  by pat_completeness auto
termination
  by (relation "measure (\<lambda>x. case x of
        Inl ts \<Rightarrow> 2 * length ts
      | Inr (Inl (ts, acc)) \<Rightarrow> 2 * length ts + 1
      | Inr (Inr (ts, acc)) \<Rightarrow> 2 * length ts + 1)") auto


section \<open>The environment of the session controller\<close>

subsection \<open>Thrown values\<close>

text \<open>
  What a rejected promise carries, as far as the catch blocks look at it: \<^verbatim>\<open>error.code\<close>
  (compared with \<^verbatim>\<open>statusCodes\<close> of the Google sign-in library, which are pairwise
  different) and \<^verbatim>\<open>error.response?.data?.message\<close>. Every library here rejects with an
  object, so reading these two never throws.
\<close>

datatype statusCode = NoCode | SIGN_IN_CANCELLED | IN_PROGRESS | PLAY_SERVICES_NOT_AVAILABLE
  | OtherCode string

record exn =
  code :: statusCode
  message :: jsval

definition TypeError :: exn where
  "TypeError = \<lparr>code = NoCode, message = JUndefined\<rparr>"

text \<open>\<^verbatim>\<open>error.response?.data?.message || d\<close>.\<close>

definition message_or :: "exn \<Rightarrow> string \<Rightarrow> jsval" where
  "message_or error d = (if truthy (message error) then message error else JStr d)"

subsection \<open>State\<close>

text \<open>
  The React state of \<^verbatim>\<open>AuthProvider\<close> (\<open>user\<close>, \<open>isLoading\<close>), the value that the
  secure store holds under each key (\<open>store\<close>), and the runs of the
  \<^verbatim>\<open>useEffect(..., [user])\<close> hook that React owes (\<open>effects\<close>): one for each change of
  \<open>user\<close>, with the value of that render.
\<close>

text \<open>
  Modelled from the spec: the service \<^verbatim>\<open>api\<close> (\<^verbatim>\<open>src/services/api\<close>), which is not
  among the sources. Following the spec's ApiIdentityBinder and its list of endpoints,
  \<^verbatim>\<open>api.setUserId(id)\<close> stores the id that later requests are stamped with
  (\<open>api_userId\<close>, null at start), \<^verbatim>\<open>api.post(url, body)\<close> sends one request (logged in
  \<open>requests\<close>), and \<^verbatim>\<open>api.updatePushToken(token)\<close> sends the token under the id bound at
  that moment (logged in \<open>uploads\<close>).
\<close>

record world =
  user :: jsval
  isLoading :: bool
  api_userId :: jsval
  store :: "string \<rightharpoonup> string"
  requests :: "(string \<times> jsval) list"
  uploads :: "(jsval \<times> jsval) list"
  effects :: "jsval list"

definition USER_KEY :: string where
  "USER_KEY = ''cashplit_user''"

text \<open>\<^verbatim>\<open>useState<User | null>(null)\<close>, \<^verbatim>\<open>useState(true)\<close>, over whatever the store holds.\<close>

definition init :: "(string \<rightharpoonup> string) \<Rightarrow> world" where
  "init st = \<lparr>user = JNull, isLoading = True, api_userId = JNull, store = st,
              requests = [], uploads = [], effects = []\<rparr>"

text \<open>
  \<^verbatim>\<open>Object.is\<close> of a new state value against the old one, by which React decides
  whether the state changed. Every object handed to \<^verbatim>\<open>setUser\<close> in this code is
  freshly built (an object literal or the result of \<^verbatim>\<open>JSON.parse\<close>), so it is never the
  old reference.
\<close>

definition Object_is :: "jsval \<Rightarrow> jsval \<Rightarrow> bool" where
  "Object_is new old = (case new of JObj kvs \<Rightarrow> False | JArr vs \<Rightarrow> False | _ \<Rightarrow> new = old)"

datatype action = setUser jsval | setIsLoading bool | api_setUserId jsval

fun act :: "action \<Rightarrow> world \<Rightarrow> world" where
  "act (setUser v) w =
     w\<lparr>user := v, effects := effects w @ (if Object_is v (user w) then [] else [v])\<rparr>"
| "act (setIsLoading b) w = w\<lparr>isLoading := b\<rparr>"
| "act (api_setUserId v) w = w\<lparr>api_userId := v\<rparr>"

subsection \<open>Asynchronous calls\<close>

datatype request =
    SecureStore_getItemAsync string
  | SecureStore_setItemAsync string string
  | SecureStore_deleteItemAsync string
  | api_post string jsval
  | api_updatePushToken jsval
  | GoogleSignin_hasPlayServices
  | GoogleSignin_signIn
  | Notifications_setNotificationChannelAsync string
  | Notifications_getPermissionsAsync
  | Notifications_requestPermissionsAsync
  | Notifications_getExpoPushTokenAsync jsval

datatype outcome = Resolves jsval | Rejects exn

text \<open>What calling the function does at once, before its promise settles.\<close>

fun issue :: "request \<Rightarrow> world \<Rightarrow> world" where
  "issue (api_post url body) w = w\<lparr>requests := requests w @ [(url, body)]\<rparr>"
| "issue (api_updatePushToken token) w = w\<lparr>uploads := uploads w @ [(token, api_userId w)]\<rparr>"
| "issue _ w = w"

text \<open>
  The settling of a call. The environment decides whether it resolves or rejects and,
  for the network and the SDKs, with what. A secure-store call that resolves takes its
  effect and its value from the store; one that rejects leaves the store as it was.
\<close>

fun perform :: "request \<Rightarrow> outcome \<Rightarrow> world \<Rightarrow> outcome \<times> world" where
  "perform (SecureStore_getItemAsync k) (Resolves v) w =
     (Resolves (case store w k of None \<Rightarrow> JNull | Some s \<Rightarrow> JStr s), w)"
| "perform (SecureStore_setItemAsync k s) (Resolves v) w =
     (Resolves JUndefined, w\<lparr>store := (store w)(k \<mapsto> s)\<rparr>)"
| "perform (SecureStore_deleteItemAsync k) (Resolves v) w =
     (Resolves JUndefined, w\<lparr>store := (store w)(k := None)\<rparr>)"
| "perform rq out w = (out, w)"

subsection \<open>Async functions\<close>

datatype AuthResult = Success | Failure jsval

text \<open>
  How a call ends: with an \<open>AuthResult\<close>, with nothing (\<^verbatim>\<open>Promise<void>\<close>), or with a
  rejection that no handler catches.
\<close>

datatype ret = Result AuthResult | Void | Unhandled exn

text \<open>
  An async function body: it returns, or awaits a call and goes on with the outcome, or
  does a synchronous state change and goes on. A \<^verbatim>\<open>try/catch\<close> is written out: every
  \<open>Rejects\<close> branch inside the \<^verbatim>\<open>try\<close> continues with the catch block.
\<close>

datatype prog = Return ret | Await request "outcome \<Rightarrow> prog" | Do action prog

text \<open>
  One call run alone: each await takes the next outcome that the environment supplies.
  \<open>None\<close> is a call still waiting.
\<close>

primrec exec :: "prog \<Rightarrow> outcome list \<Rightarrow> world \<Rightarrow> ret option \<times> world" where
  "exec (Return r) outs w = (Some r, w)"
| "exec (Do a p) outs w = exec p outs (act a w)"
| "exec (Await rq k) outs w =
     (case outs of
        [] \<Rightarrow> (None, issue rq w)
      | out # outs' \<Rightarrow>
          (case perform rq out (issue rq w) of (out', w') \<Rightarrow> exec (k out') outs' w'))"


section \<open>\<^verbatim>\<open>src/services/notifications.ts\<close>\<close>

text \<open>\<^verbatim>\<open>Platform.OS\<close>, \<^verbatim>\<open>Device.isDevice\<close> and the two places of the project id.\<close>

record platform =
  OS :: string
  isDevice :: bool
  expoConfig_projectId :: jsval
  easConfig_projectId :: jsval

text \<open>
  The part of \<^verbatim>\<open>registerForPushNotificationsAsync\<close> after the permission is known.
  \<open>k\<close> is what the caller does with the returned token.
\<close>

definition register_with_status :: "platform \<Rightarrow> jsval \<Rightarrow> (jsval \<Rightarrow> prog) \<Rightarrow> prog" where
  "register_with_status pf finalStatus k =
     (if finalStatus \<noteq> JStr ''granted'' then k JUndefined
      else
        let projectId = (if nullish (expoConfig_projectId pf) then easConfig_projectId pf
                         else expoConfig_projectId pf)
        in if \<not> truthy projectId then k JUndefined
           else Await (Notifications_getExpoPushTokenAsync projectId)
                  (\<lambda>r. case r of
                          Rejects e \<Rightarrow> k JUndefined
                        | Resolves t \<Rightarrow> if nullish t then k JUndefined else k (dot t ''data'')))"

definition register_on_device :: "platform \<Rightarrow> (jsval \<Rightarrow> prog) \<Rightarrow> prog" where
  "register_on_device pf k =
     (if isDevice pf then
        Await Notifications_getPermissionsAsync
          (\<lambda>r. case r of
                  Rejects e \<Rightarrow> Return (Unhandled e)
                | Resolves p \<Rightarrow>
                    if nullish p then Return (Unhandled TypeError)
                    else if dot p ''status'' \<noteq> JStr ''granted'' then
                      Await Notifications_requestPermissionsAsync
                        (\<lambda>r. case r of
                                Rejects e \<Rightarrow> Return (Unhandled e)
                              | Resolves q \<Rightarrow>
                                  if nullish q then Return (Unhandled TypeError)
                                  else register_with_status pf (dot q ''status'') k)
                    else register_with_status pf (dot p ''status'') k)
      else k JUndefined)"

definition registerForPushNotificationsAsync :: "platform \<Rightarrow> (jsval \<Rightarrow> prog) \<Rightarrow> prog" where
  "registerForPushNotificationsAsync pf k =
     (if OS pf = ''android'' then
        Await (Notifications_setNotificationChannelAsync ''default'')
          (\<lambda>r. case r of
                  Rejects e \<Rightarrow> Return (Unhandled e)
                | Resolves v \<Rightarrow> register_on_device pf k)
      else register_on_device pf k)"

section \<open>\<^verbatim>\<open>src/context/AuthContext.tsx\<close>\<close>



definition signIn_catch :: "exn \<Rightarrow> prog" where
  "signIn_catch error = Return (Result (Failure (message_or error ''Sign in failed'')))"

definition signIn :: "string \<Rightarrow> string \<Rightarrow> prog" where
  "signIn e p =
     Await (api_post ''/api/auth/signin'' (JObj [(''email'', JStr e), (''password'', JStr p)]))
       (\<lambda>r. case r of
               Rejects error \<Rightarrow> signIn_catch error
             | Resolves response \<Rightarrow>
                 if nullish response then signIn_catch TypeError
                 else if truthy (opt_dot (dot response ''data'') ''user'') then
                   let u = dot (dot response ''data'') ''user'';
                       userData = JObj [(''id'', dot u ''id''), (''name'', dot u ''name''),
                                        (''email'', dot u ''email'')]
                   in Await (SecureStore_setItemAsync USER_KEY (JSON_stringify userData))
                        (\<lambda>r. case r of
                                Rejects error \<Rightarrow> signIn_catch error
                              | Resolves v \<Rightarrow>
                                  Do (api_setUserId (dot userData ''id''))
                                    (Do (setUser userData) (Return (Result Success))))
                 else Return (Result (Failure (JStr ''Invalid credentials''))))"

definition signInWithGoogle_catch :: "exn \<Rightarrow> prog" where
  "signInWithGoogle_catch error =
     (if code error = SIGN_IN_CANCELLED then Return (Result (Failure (JStr ''Sign in cancelled'')))
      else if code error = IN_PROGRESS then Return (Result (Failure (JStr ''Sign in in progress'')))
      else if code error = PLAY_SERVICES_NOT_AVAILABLE
        then Return (Result (Failure (JStr ''Play services not available'')))
      else Return (Result (Failure (message_or error ''Google sign-in failed''))))"

definition signInWithGoogle :: prog where
  "signInWithGoogle =
     Await GoogleSignin_hasPlayServices
       (\<lambda>r. case r of
               Rejects error \<Rightarrow> signInWithGoogle_catch error
             | Resolves available \<Rightarrow>
     Await GoogleSignin_signIn
       (\<lambda>r. case r of
               Rejects error \<Rightarrow> signInWithGoogle_catch error
             | Resolves userInfo \<Rightarrow>
                 if nullish userInfo then signInWithGoogle_catch TypeError
                 else
                   let idToken = opt_dot (dot userInfo ''data'') ''idToken'' in
                   if \<not> truthy idToken
                   then Return (Result (Failure (JStr ''Failed to get ID token'')))
                   else
     Await (api_post ''/api/auth/google'' (JObj [(''idToken'', idToken)]))
       (\<lambda>r. case r of
               Rejects error \<Rightarrow> signInWithGoogle_catch error
             | Resolves response \<Rightarrow>
                 if nullish response then signInWithGoogle_catch TypeError
                 else if truthy (opt_dot (dot response ''data'') ''user'') then
                   let u = dot (dot response ''data'') ''user'';
                       userData = JObj [(''id'', dot u ''id''), (''name'', dot u ''name''),
                                        (''email'', dot u ''email'')]
                   in Await (SecureStore_setItemAsync USER_KEY (JSON_stringify userData))
                        (\<lambda>r. case r of
                                Rejects error \<Rightarrow> signInWithGoogle_catch error
                              | Resolves v \<Rightarrow>
                                  Do (api_setUserId (dot userData ''id''))
                                    (Do (setUser userData) (Return (Result Success))))
                 else Return (Result (Failure (JStr ''Google sign-in failed on server''))))))"

record SignUpData =
  name :: string
  email :: string
  password :: string
  phone :: string
  upiId :: string

definition SignUpData_object :: "SignUpData \<Rightarrow> jsval" where
  "SignUpData_object d =
     JObj [(''name'', JStr (name d)), (''email'', JStr (email d)),
           (''password'', JStr (password d)), (''phone'', JStr (phone d)),
           (''upiId'', JStr (upiId d))]"

definition signUp_catch :: "exn \<Rightarrow> prog" where
  "signUp_catch error = Return (Result (Failure (message_or error ''Sign up failed'')))"

definition signUp :: "SignUpData \<Rightarrow> prog" where
  "signUp d =
     Await (api_post ''/api/auth/signup'' (SignUpData_object d))
       (\<lambda>r. case r of
               Rejects error \<Rightarrow> signUp_catch error
             | Resolves response \<Rightarrow>
                 if nullish response then signUp_catch TypeError
                 else if truthy (opt_dot (dot response ''data'') ''userId'') then
                   let userData = JObj [(''id'', dot (dot response ''data'') ''userId''),
                                        (''name'', JStr (name d)), (''email'', JStr (email d))]
                   in Await (SecureStore_setItemAsync USER_KEY (JSON_stringify userData))
                        (\<lambda>r. case r of
                                Rejects error \<Rightarrow> signUp_catch error
                              | Resolves v \<Rightarrow>
                                  Do (api_setUserId (dot userData ''id''))
                                    (Do (setUser userData) (Return (Result Success))))
                 else Return (Result (Failure (JStr ''Registration failed''))))"

definition forgotPassword :: "string \<Rightarrow> prog" where
  "forgotPassword e =
     Await (api_post ''/api/auth/forgot-password'' (JObj [(''email'', JStr e)]))
       (\<lambda>r. case r of
               Rejects error \<Rightarrow>
                 Return (Result (Failure (message_or error ''Failed to send reset email'')))
             | Resolves response \<Rightarrow> Return (Result Success))"

definition signOut :: prog where
  "signOut =
     Await (SecureStore_deleteItemAsync USER_KEY)
       (\<lambda>r. case r of
               Rejects error \<Rightarrow> Return Void
             | Resolves v \<Rightarrow> Do (api_setUserId JNull) (Do (setUser JNull) (Return Void)))"

text \<open>
  The effect \<^verbatim>\<open>useEffect(() => { if (user) {...} }, [user])\<close>, for the \<open>user\<close> of the
  render it belongs to.
\<close>

definition push_token_effect :: "platform \<Rightarrow> jsval \<Rightarrow> prog" where
  "push_token_effect pf u =
     (if truthy u then
        registerForPushNotificationsAsync pf
          (\<lambda>token. if truthy token
                    then Await (api_updatePushToken token) (\<lambda>r. Return Void)
                    else Return Void)
      else Return Void)"

section \<open>Calls in flight together\<close>

text \<open>
  JavaScript runs one piece of synchronous code at a time; calls interleave at their
  awaits. A call in flight waits for its request (\<open>Pending\<close>), or has the outcome and
  waits for its turn to continue (\<open>Settled\<close>), or is done.
\<close>

datatype thread = Pending request "outcome \<Rightarrow> prog" | Settled outcome "outcome \<Rightarrow> prog"
  | Finished ret

text \<open>Synchronous execution up to the next await.\<close>

primrec start :: "prog \<Rightarrow> world \<Rightarrow> thread \<times> world" where
  "start (Return r) w = (Finished r, w)"
| "start (Do a p) w = start p (act a w)"
| "start (Await rq k) w = (Pending rq k, issue rq w)"

text \<open>
  What can happen next: some code calls an async function; the request of call \<open>i\<close>
  settles; call \<open>i\<close> continues; React commits a render and runs the effect it owes.
\<close>

datatype event = Call prog | Settle nat outcome | Resume nat | Commit

fun step :: "platform \<Rightarrow> event \<Rightarrow> world \<times> thread list \<Rightarrow> world \<times> thread list" where
  "step pf (Call p) (w, ts) = (case start p w of (t, w') \<Rightarrow> (w', ts @ [t]))"
| "step pf (Settle i out) (w, ts) =
     (if i < length ts then
        (case ts ! i of
           Pending rq k \<Rightarrow> (case perform rq out w of (out', w') \<Rightarrow> (w', ts[i := Settled out' k]))
         | _ \<Rightarrow> (w, ts))
      else (w, ts))"
| "step pf (Resume i) (w, ts) =
     (if i < length ts then
        (case ts ! i of
           Settled out k \<Rightarrow> (case start (k out) w of (t, w') \<Rightarrow> (w', ts[i := t]))
         | _ \<Rightarrow> (w, ts))
      else (w, ts))"
| "step pf Commit (w, ts) =
     (case effects w of
        [] \<Rightarrow> (w, ts)
      | u # us \<Rightarrow> (case start (push_token_effect pf u) (w\<lparr>effects := us\<rparr>) of
                    (t, w') \<Rightarrow> (w', ts @ [t])))"

fun run :: "platform \<Rightarrow> event list \<Rightarrow> world \<times> thread list \<Rightarrow> world \<times> thread list" where
  "run pf [] s = s"
| "run pf (ev # evs) s = run pf evs (step pf ev s)"



text \<open>
  A call that runs with no other call in flight does the same in the interleaving
  semantics as \<open>exec\<close> says: its requests settle one after the other, and after each it
  continues.
\<close>

fun alone :: "outcome list \<Rightarrow> event list" where
  "alone [] = []"
| "alone (out # outs) = Settle 0 out # Resume 0 # alone outs"

definition outcome_of :: "thread \<Rightarrow> ret option" where
  "outcome_of t = (case t of Finished r \<Rightarrow> Some r | _ \<Rightarrow> None)"

section \<open>\<^verbatim>\<open>src/app/(auth)/forgot-password.tsx\<close>\<close>

text \<open>The state of \<^verbatim>\<open>ForgotPasswordScreen\<close>: \<^verbatim>\<open>email\<close>, \<^verbatim>\<open>error\<close>, \<^verbatim>\<open>loading\<close>, \<^verbatim>\<open>success\<close>.\<close>

record ForgotPasswordScreen =
  screen_email :: string
  screen_error :: jsval
  screen_loading :: bool
  screen_success :: bool

text \<open>
  \<^verbatim>\<open>handleResetPassword\<close>, with the outcomes that the environment supplies to the
  \<^verbatim>\<open>forgotPassword\<close> call it awaits.
\<close>

definition handleResetPassword ::
  "ForgotPasswordScreen \<Rightarrow> outcome list \<Rightarrow> world \<Rightarrow> ForgotPasswordScreen \<times> world" where
  "handleResetPassword s outs w =
     (if screen_email s = [] then
        (s\<lparr>screen_error := JStr ''Please enter your email address''\<rparr>, w)
      else
        (case exec (forgotPassword (screen_email s)) outs w of
           (Some (Result Success), w') \<Rightarrow>
             (s\<lparr>screen_loading := False, screen_error := JStr [], screen_success := True\<rparr>, w')
         | (Some (Result (Failure m)), w') \<Rightarrow>
             (s\<lparr>screen_loading := False,
                screen_error := (if truthy m then m else JStr ''Failed to send reset link'')\<rparr>, w')
         | (_, w') \<Rightarrow> (s\<lparr>screen_loading := True, screen_error := JStr []\<rparr>, w')))"

section \<open>Sessions and sample data\<close>

text \<open>A value of the interface \<^verbatim>\<open>User\<close>: \<^verbatim>\<open>{id, name, email}\<close>, all strings.\<close>

definition User :: "string \<Rightarrow> string \<Rightarrow> string \<Rightarrow> jsval" where
  "User i n e = JObj [(''id'', JStr i), (''name'', JStr n), (''email'', JStr e)]"

text \<open>
  The state the spec calls Authenticated as \<open>u\<close>: memory, store and bound id agree.
\<close>

definition authenticated :: "jsval \<Rightarrow> world" where
  "authenticated u =
     \<lparr>user = u, isLoading = False, api_userId = dot u ''id'',
      store = [USER_KEY \<mapsto> JSON_stringify u],
      requests = [], uploads = [], effects = []\<rparr>"

definition alice :: jsval where
  "alice = User ''1'' ''A'' ''a@x.com''"

definition bob :: jsval where
  "bob = User ''2'' ''B'' ''b@x.com''"

text \<open>The response of the sign-in endpoints: \<^verbatim>\<open>response.data = {user: u}\<close>.\<close>

definition user_response :: "jsval \<Rightarrow> jsval" where
  "user_response u = JObj [(''data'', JObj [(''user'', u)])]"

text \<open>An \<^verbatim>\<open>Error\<close> without code and without server message.\<close>

definition plain_error :: exn where
  "plain_error = \<lparr>code = NoCode, message = JUndefined\<rparr>"

text \<open>A physical iOS device with a project id in \<^verbatim>\<open>expoConfig\<close>.\<close>

definition phone :: platform where
  "phone = \<lparr>OS = ''ios'', isDevice = True, expoConfig_projectId = JStr ''project'',
            easConfig_projectId = JUndefined\<rparr>"

section \<open>Lemmas on the JSON built-in\<close>






lemma JSON_stringify_User:
  "JSON_stringify (User i n e) =
     CHR ''{'' # QuoteJSONString ''id'' @ CHR '':'' # QuoteJSONString i @
     CHR '','' # QuoteJSONString ''name'' @ CHR '':'' # QuoteJSONString n @
     CHR '','' # QuoteJSONString ''email'' @ CHR '':'' # QuoteJSONString e @ ''}''"
  by (simp add: JSON_stringify_def User_def)



section \<open>Lemmas on the environment\<close>

lemma perform_getItem:
  "perform (SecureStore_getItemAsync k) out w =
     (case out of
        Resolves v \<Rightarrow> (Resolves (case store w k of None \<Rightarrow> JNull | Some s \<Rightarrow> JStr s), w)
      | Rejects e \<Rightarrow> (Rejects e, w))"
  by (cases out) simp_all

lemma perform_setItem:
  "perform (SecureStore_setItemAsync k s) out w =
     (case out of
        Resolves v \<Rightarrow> (Resolves JUndefined, w\<lparr>store := (store w)(k \<mapsto> s)\<rparr>)
      | Rejects e \<Rightarrow> (Rejects e, w))"
  by (cases out) simp_all

lemma perform_deleteItem:
  "perform (SecureStore_deleteItemAsync k) out w =
     (case out of
        Resolves v \<Rightarrow> (Resolves JUndefined, w\<lparr>store := (store w)(k := None)\<rparr>)
      | Rejects e \<Rightarrow> (Rejects e, w))"
  by (cases out) simp_all



lemma JSON_stringify_User_truthy: "truthy (JStr (JSON_stringify (User i n e)))"
  by (simp add: JSON_stringify_User)



section \<open>One call alone, in both semantics\<close>

lemma start_not_Settled: "start p w \<noteq> (Settled out k, w')"
  by (induction p arbitrary: w) simp_all

lemma start_Finished: "start p w = (Finished r, w') \<Longrightarrow> exec p outs w = (Some r, w')"
  by (induction p arbitrary: w) simp_all

lemma start_Pending_Nil: "start p w = (Pending rq k, w') \<Longrightarrow> exec p [] w = (None, w')"
  by (induction p arbitrary: w) simp_all

lemma start_Pending_Cons:
  "start p w = (Pending rq k, w') \<Longrightarrow>
   exec p (out # outs) w = (case perform rq out w' of (out', w'') \<Rightarrow> exec (k out') outs w'')"
  by (induction p arbitrary: w) auto

lemma run_alone_Finished: "run pf (alone outs) (w, [Finished r]) = (w, [Finished r])"
  by (induction outs) simp_all

lemma run_alone:
  "start p w = (t, w0) \<Longrightarrow>
   \<exists>t'. run pf (alone outs) (w0, [t]) = (snd (exec p outs w), [t'])
        \<and> outcome_of t' = fst (exec p outs w)"
proof (induction outs arbitrary: p w t w0)
  case Nil
  then show ?case
    by (cases t)
       (simp_all add: outcome_of_def start_Pending_Nil start_Finished start_not_Settled)
next
  case (Cons out outs)
  show ?case
  proof (cases t)
    case (Finished r)
    with Cons.prems show ?thesis
      by (simp add: start_Finished outcome_of_def run_alone_Finished del: alone.simps)
  next
    case (Settled x k)
    with Cons.prems show ?thesis by (simp add: start_not_Settled)
  next
    case (Pending rq k)
    obtain out' w' where pf: "perform rq out w0 = (out', w')"
      by (cases "perform rq out w0")
    obtain t2 w2 where st: "start (k out') w' = (t2, w2)"
      by (cases "start (k out') w'")
    from Cons.IH [OF st]
    obtain t' where "run pf (alone outs) (w2, [t2]) = (snd (exec (k out') outs w'), [t'])"
      and "outcome_of t' = fst (exec (k out') outs w')"
      by blast
    with Cons.prems Pending pf st show ?thesis
      by (simp add: start_Pending_Cons)
  qed
qed

lemma run_Call_alone:
  "\<exists>t'. run pf (Call p # alone outs) (w, []) = (snd (exec p outs w), [t'])
        \<and> outcome_of t' = fst (exec p outs w)"
proof -
  obtain t w0 where st: "start p w = (t, w0)" by (cases "start p w")
  from run_alone [OF st, of pf outs] st show ?thesis by simp
qed

section \<open>Properties\<close>

text \<open>
  C9. \<^verbatim>\<open>forgotPassword(email)\<close> returns \<^verbatim>\<open>{success: true}\<close> whenever its request
  completes without error, in every state \<open>w\<close>. Whatever the outcome (also while the
  request is still pending), \<open>user\<close>, the store, the bound id, \<open>isLoading\<close> and the owed
  effects are those of \<open>w\<close>; only the request log grows.
\<close>

theorem forgotPassword_success_and_frame:
  "exec (forgotPassword e) [Resolves response] w =
     (Some (Result Success),
      w\<lparr>requests := requests w @ [(''/api/auth/forgot-password'', JObj [(''email'', JStr e)])]\<rparr>)
   \<and> user (snd (exec (forgotPassword e) outs w)) = user w
   \<and> store (snd (exec (forgotPassword e) outs w)) = store w
   \<and> api_userId (snd (exec (forgotPassword e) outs w)) = api_userId w
   \<and> isLoading (snd (exec (forgotPassword e) outs w)) = isLoading w
   \<and> effects (snd (exec (forgotPassword e) outs w)) = effects w"
  by (cases outs; cases "hd outs") (simp_all add: forgotPassword_def)

text \<open>
  C1. For \<^verbatim>\<open>signIn\<close>, \<^verbatim>\<open>signUp\<close> and \<^verbatim>\<open>signInWithGoogle\<close>: when the adapter has
  reported success (the response carries a user, or a user id) and the write to the
  secure store rejects, the call returns a failure and the state is the prior one:
  \<open>user\<close>, the store, the bound id, \<open>isLoading\<close> and the owed effects are unchanged
  (only the request log has grown by the request that was sent).
\<close>

theorem establish_write_failure:
  "(\<not> nullish response \<and> truthy (opt_dot (dot response ''data'') ''user'') \<longrightarrow>
      exec (signIn e p) [Resolves response, Rejects err] w =
        (Some (Result (Failure (message_or err ''Sign in failed''))),
         w\<lparr>requests := requests w @
              [(''/api/auth/signin'', JObj [(''email'', JStr e), (''password'', JStr p)])]\<rparr>))
   \<and> (\<not> nullish response \<and> truthy (opt_dot (dot response ''data'') ''userId'') \<longrightarrow>
      exec (signUp d) [Resolves response, Rejects err] w =
        (Some (Result (Failure (message_or err ''Sign up failed''))),
         w\<lparr>requests := requests w @ [(''/api/auth/signup'', SignUpData_object d)]\<rparr>))
   \<and> (\<not> nullish userInfo \<and> truthy (opt_dot (dot userInfo ''data'') ''idToken'') \<and>
       \<not> nullish response \<and> truthy (opt_dot (dot response ''data'') ''user'') \<longrightarrow>
      (\<exists>m. exec signInWithGoogle [Resolves a, Resolves userInfo, Resolves response, Rejects err] w =
        (Some (Result (Failure m)),
         w\<lparr>requests := requests w @
              [(''/api/auth/google'',
                JObj [(''idToken'', opt_dot (dot userInfo ''data'') ''idToken'')])]\<rparr>)))"
  by (simp add: signIn_def signUp_def signInWithGoogle_def signIn_catch_def signUp_catch_def
        signInWithGoogle_catch_def Let_def)

theorem establish_write_failure_witness:
  "\<not> nullish (user_response bob)
   \<and> truthy (opt_dot (dot (user_response bob) ''data'') ''user'')
   \<and> exec (signIn ''b@x.com'' ''pw'') [Resolves (user_response bob), Rejects plain_error]
        (authenticated alice) =
        (Some (Result (Failure (JStr ''Sign in failed''))),
         (authenticated alice)\<lparr>requests :=
            [(''/api/auth/signin'',
              JObj [(''email'', JStr ''b@x.com''), (''password'', JStr ''pw'')])]\<rparr>)
   \<and> \<not> nullish (JObj [(''data'', JObj [(''userId'', JStr ''2'')])])
   \<and> truthy (opt_dot (dot (JObj [(''data'', JObj [(''userId'', JStr ''2'')])]) ''data'') ''userId'')
   \<and> user (snd (exec (signUp \<lparr>name = ''B'', email = ''b@x.com'', password = ''pw'',
                               phone = ''1'', upiId = ''b@upi''\<rparr>)
                    [Resolves (JObj [(''data'', JObj [(''userId'', JStr ''2'')])]),
                     Rejects plain_error] (authenticated alice))) = alice
   \<and> \<not> nullish (JObj [(''data'', JObj [(''idToken'', JStr ''tok'')])])
   \<and> truthy (opt_dot (dot (JObj [(''data'', JObj [(''idToken'', JStr ''tok'')])]) ''data'')
               ''idToken'')
   \<and> (\<exists>m. exec signInWithGoogle
              [Resolves (JBool True),
               Resolves (JObj [(''data'', JObj [(''idToken'', JStr ''tok'')])]),
               Resolves (user_response bob), Rejects plain_error] (authenticated alice) =
            (Some (Result (Failure m)),
             (authenticated alice)\<lparr>requests :=
                [(''/api/auth/google'', JObj [(''idToken'', JStr ''tok'')])]\<rparr>))"
  using establish_write_failure
    [of "user_response bob" "''b@x.com''" "''pw''" plain_error "authenticated alice"
        "\<lparr>name = ''B'', email = ''b@x.com'', password = ''pw'', phone = ''1'', upiId = ''b@upi''\<rparr>"
        "JObj [(''data'', JObj [(''idToken'', JStr ''tok'')])]" "JBool True"]
    establish_write_failure
    [of "JObj [(''data'', JObj [(''userId'', JStr ''2'')])]" "''b@x.com''" "''pw''" plain_error
        "authenticated alice"
        "\<lparr>name = ''B'', email = ''b@x.com'', password = ''pw'', phone = ''1'', upiId = ''b@upi''\<rparr>"
        "JObj [(''data'', JObj [(''idToken'', JStr ''tok'')])]" "JBool True"]
  by (simp add: user_response_def bob_def alice_def User_def nullish_def opt_dot_def
        plain_error_def message_or_def authenticated_def)






text \<open>
  C4, as the code has it. \<^verbatim>\<open>signOut()\<close> never throws, in any state and for any outcome
  of the storage clear, also when called twice in a row. When the storage clear
  succeeds, the state afterwards is Anonymous: \<open>user\<close> is null, the stored record is gone
  and the bound id is null. When the storage clear reports an error, the error is
  swallowed and the state is left as it was.
\<close>

theorem signOut_never_throws:
  "fst (exec signOut [out] w) = Some Void
   \<and> fst (exec signOut [out2] (snd (exec signOut [out] w))) = Some Void
   \<and> exec signOut [Resolves v] w =
        (Some Void,
         w\<lparr>store := (store w)(USER_KEY := None), api_userId := JNull, user := JNull,
           effects := effects w @ (if user w = JNull then [] else [JNull])\<rparr>)
   \<and> user (snd (exec signOut [Resolves v2] (snd (exec signOut [Resolves v] w)))) = JNull
   \<and> store (snd (exec signOut [Resolves v2] (snd (exec signOut [Resolves v] w)))) USER_KEY = None
   \<and> api_userId (snd (exec signOut [Resolves v2] (snd (exec signOut [Resolves v] w)))) = JNull
   \<and> exec signOut [Rejects err] w = (Some Void, w)"
  by (cases out; cases out2) (simp_all add: signOut_def Object_is_def)

text \<open>
  C4 as stated fails: signed in as \<open>alice\<close>, a \<^verbatim>\<open>signOut()\<close> whose storage clear rejects
  returns, and the controller is still signed in as \<open>alice\<close>, with her record in the
  store and her id bound.
\<close>

theorem signOut_clear_error_counterexample:
  "exec signOut [Rejects plain_error] (authenticated alice) = (Some Void, authenticated alice)
   \<and> user (authenticated alice) = alice \<and> alice \<noteq> JNull
   \<and> store (authenticated alice) USER_KEY = Some (JSON_stringify alice)
   \<and> api_userId (authenticated alice) = JStr ''1''"
  by (simp add: signOut_def authenticated_def alice_def User_def)










text \<open>
  C10, as the code has it. \<^verbatim>\<open>signIn\<close>, \<^verbatim>\<open>signUp\<close> and \<^verbatim>\<open>forgotPassword\<close> validate
  nothing: whatever the email, also the empty one, each sends its request as its first
  step. The validation of the sources is in the forgot-password screen: its handler
  rejects an empty email with a message, without calling \<^verbatim>\<open>forgotPassword\<close> and so
  without a network call.
\<close>

theorem validation_is_in_the_screen:
  "requests (snd (exec (signIn e p) outs w)) =
     requests w @ [(''/api/auth/signin'', JObj [(''email'', JStr e), (''password'', JStr p)])]
   \<and> requests (snd (exec (signUp d) outs w)) =
     requests w @ [(''/api/auth/signup'', SignUpData_object d)]
   \<and> requests (snd (exec (forgotPassword e) outs w)) =
     requests w @ [(''/api/auth/forgot-password'', JObj [(''email'', JStr e)])]
   \<and> handleResetPassword (s\<lparr>screen_email := []\<rparr>) outs w =
     (s\<lparr>screen_email := [], screen_error := JStr ''Please enter your email address''\<rparr>, w)"
proof -
  have 1: "requests (snd (exec (signIn e p) outs w)) =
     requests w @ [(''/api/auth/signin'', JObj [(''email'', JStr e), (''password'', JStr p)])]"
    by (simp add: signIn_def signIn_catch_def Let_def perform_setItem
          split: list.splits outcome.splits prod.splits)
  have 2: "requests (snd (exec (signUp d) outs w)) =
     requests w @ [(''/api/auth/signup'', SignUpData_object d)]"
    by (simp add: signUp_def signUp_catch_def Let_def perform_setItem
          split: list.splits outcome.splits prod.splits)
  have 3: "requests (snd (exec (forgotPassword e) outs w)) =
     requests w @ [(''/api/auth/forgot-password'', JObj [(''email'', JStr e)])]"
    by (simp add: forgotPassword_def split: list.splits outcome.splits)
  have 4: "handleResetPassword (s\<lparr>screen_email := []\<rparr>) outs w =
     (s\<lparr>screen_email := [], screen_error := JStr ''Please enter your email address''\<rparr>, w)"
    by (simp add: handleResetPassword_def)
  from 1 2 3 4 show ?thesis by blast
qed

text \<open>
  C10 as stated fails: \<^verbatim>\<open>signIn("", "pw")\<close> sends its request, and when the server
  answers with a user the call succeeds; \<^verbatim>\<open>forgotPassword("")\<close> sends its request too.
\<close>

theorem empty_email_counterexample:
  "exec (signIn [] ''pw'') [] (init Map.empty) =
     (None, (init Map.empty)\<lparr>requests :=
        [(''/api/auth/signin'', JObj [(''email'', JStr []), (''password'', JStr ''pw'')])]\<rparr>)
   \<and> fst (exec (signIn [] ''pw'') [Resolves (user_response alice), Resolves JUndefined]
             (init Map.empty)) = Some (Result Success)
   \<and> exec (forgotPassword []) [Resolves JNull] (init Map.empty) =
     (Some (Result Success), (init Map.empty)\<lparr>requests :=
        [(''/api/auth/forgot-password'', JObj [(''email'', JStr [])])]\<rparr>)"
  by (simp add: signIn_def forgotPassword_def init_def user_response_def alice_def User_def
        nullish_def opt_dot_def Let_def)

end
